theory Spec2Isabelle
  imports Complex_Main "HOL-Library.Char_ord" "HOL-Library.List_Lexorder" "HOL-Library.AList"
begin

section \<open>Python values, exceptions and dictionary operations\<close>

text \<open>
  The analysis bundle, the feature map and the metadata of a project are Python
  dictionaries with values of any type (\<^verbatim>\<open>Dict[str, Any]\<close>).  They are modelled by
  the type \<open>pyval\<close>.  Integers and floats are both \<open>PNum\<close> over the reals: the
  arithmetic of the scoring engine is exact in the model, floating-point rounding error
  is outside it.  A dictionary is an association list in insertion order; lookups take
  the first binding of a key and updates go through \<open>AList.update\<close>, which overwrites in
  place or appends, as a Python \<open>dict\<close> does.  Strings are lists of 8-bit characters and
  the character classes used below are those of ASCII text.
\<close>

datatype pyval =
    PNone
  | PBool bool
  | PNum real
  | PStr string
  | PList "pyval list"
  | PDict "(string \<times> pyval) list"

datatype error = TypeError | AttributeError | KeyError | ValidationError | LookupError

definition bind_e :: "error + 'a \<Rightarrow> ('a \<Rightarrow> error + 'b) \<Rightarrow> error + 'b" where
  "bind_e m f = (case m of Inl e \<Rightarrow> Inl e | Inr x \<Rightarrow> f x)"

text \<open>\<^verbatim>\<open>p in s\<close> on two strings: \<open>str_contains s p\<close>.\<close>

fun starts_with :: "string \<Rightarrow> string \<Rightarrow> bool" where
  "starts_with s [] = True"
| "starts_with [] (p # ps) = False"
| "starts_with (c # s) (p # ps) = (c = p \<and> starts_with s ps)"

fun str_contains :: "string \<Rightarrow> string \<Rightarrow> bool" where
  "str_contains [] p = (p = [])"
| "str_contains (c # s) p = (starts_with (c # s) p \<or> str_contains s p)"

text \<open>\<^verbatim>\<open>x.get(k, default)\<close>: only a dictionary has the method.\<close>

definition py_get :: "pyval \<Rightarrow> string \<Rightarrow> pyval \<Rightarrow> error + pyval" where
  "py_get x k d =
     (case x of
        PDict kvs \<Rightarrow> Inr (case map_of kvs k of Some v \<Rightarrow> v | None \<Rightarrow> d)
      | _ \<Rightarrow> Inl AttributeError)"

definition py_get2 :: "pyval \<Rightarrow> string \<Rightarrow> string \<Rightarrow> pyval \<Rightarrow> error + pyval" where
  "py_get2 x a b d = bind_e (py_get x a (PDict [])) (\<lambda>y. py_get y b d)"

definition py_get3 :: "pyval \<Rightarrow> string \<Rightarrow> string \<Rightarrow> string \<Rightarrow> pyval \<Rightarrow> error + pyval" where
  "py_get3 x a b c d =
     bind_e (py_get x a (PDict [])) (\<lambda>y. bind_e (py_get y b (PDict [])) (\<lambda>z. py_get z c d))"

text \<open>\<^verbatim>\<open>k in x\<close> for a string \<open>k\<close>: key of a dictionary, element of a list, substring
  of a string; any other right operand is not iterable.\<close>

definition py_contains :: "string \<Rightarrow> pyval \<Rightarrow> error + bool" where
  "py_contains k x =
     (case x of
        PDict kvs \<Rightarrow> Inr (k \<in> set (map fst kvs))
      | PList vs \<Rightarrow> Inr (PStr k \<in> set vs)
      | PStr s \<Rightarrow> Inr (str_contains s k)
      | _ \<Rightarrow> Inl TypeError)"

text \<open>\<^verbatim>\<open>x[k]\<close> for a string \<open>k\<close>.\<close>

definition py_getitem :: "pyval \<Rightarrow> string \<Rightarrow> error + pyval" where
  "py_getitem x k =
     (case x of
        PDict kvs \<Rightarrow> (case map_of kvs k of Some v \<Rightarrow> Inr v | None \<Rightarrow> Inl KeyError)
      | _ \<Rightarrow> Inl TypeError)"


text \<open>
  The value of \<open>v\<close> in float arithmetic and in an order comparison with a float
  (\<^verbatim>\<open>score += v * 20\<close>, \<^verbatim>\<open>(v - 0.5) * 20\<close>, \<^verbatim>\<open>v > 0.7\<close>).  A number or a boolean
  takes part; for \<open>None\<close>, a string, a list or a dictionary one of the operations of the
  statement raises \<open>TypeError\<close> (a string or a list times an integer is a sequence,
  but adding it to the float score raises).
\<close>

definition as_num :: "pyval \<Rightarrow> error + real" where
  "as_num v = (case v of PNum x \<Rightarrow> Inr x | PBool b \<Rightarrow> Inr (if b then 1 else 0) | _ \<Rightarrow> Inl TypeError)"


definition py_eq_str :: "pyval \<Rightarrow> string \<Rightarrow> bool" where
  "py_eq_str v s = (v = PStr s)"

text \<open>Truth value of an object (\<^verbatim>\<open>if x:\<close>, \<^verbatim>\<open>if not x:\<close>).\<close>

definition py_truthy :: "pyval \<Rightarrow> bool" where
  "py_truthy v =
     (case v of
        PNone \<Rightarrow> False
      | PBool b \<Rightarrow> b
      | PNum x \<Rightarrow> x \<noteq> 0
      | PStr s \<Rightarrow> s \<noteq> []
      | PList vs \<Rightarrow> vs \<noteq> []
      | PDict kvs \<Rightarrow> kvs \<noteq> [])"

text \<open>\<^verbatim>\<open>d.get(k, default)\<close> on a dictionary of floats.\<close>

definition dict_get_real :: "(string \<times> real) list \<Rightarrow> string \<Rightarrow> real \<Rightarrow> real" where
  "dict_get_real d k dflt = (case map_of d k of Some v \<Rightarrow> v | None \<Rightarrow> dflt)"

definition num_dict :: "(string \<times> real) list \<Rightarrow> pyval" where
  "num_dict d = PDict (map (\<lambda>(k, v). (k, PNum v)) d)"

section \<open>schemas.py: ScoringAlgorithm, ScoringResult, ScoringRequest\<close>


record ScoringResult =
  quality_score :: real
  innovation_score :: real
  feasibility_score :: real
  business_value_score :: real
  overall_score :: real
  scoring_details :: "(string \<times> pyval) list"
  algorithm_version :: string







section \<open>scoring.py: BaseScoringAlgorithm\<close>

definition clamp_score :: "real \<Rightarrow> real" where
  "clamp_score score = min (max score 0) 100"

text \<open>The statement pattern \<^verbatim>\<open>if k in features: score += features[k] * c\<close>.\<close>

definition add_kw :: "pyval \<Rightarrow> string \<Rightarrow> real \<Rightarrow> real \<Rightarrow> error + real" where
  "add_kw features k c score =
     bind_e (py_contains k features) (\<lambda>present.
       if present then
         bind_e (py_getitem features k) (\<lambda>v.
         bind_e (as_num v) (\<lambda>x. Inr (score + x * c)))
       else Inr score)"











text \<open>
  \<^verbatim>\<open>round(x, 2)\<close>: the nearest multiple of 0.01, a tie going to the even neighbour.
\<close>

definition round_half_even :: "real \<Rightarrow> int" where
  "round_half_even x =
     (let f = \<lfloor>x\<rfloor>; d = x - of_int f
      in if d < 1 / 2 then f else if d > 1 / 2 then f + 1 else if even f then f else f + 1)"

definition py_round2 :: "real \<Rightarrow> real" where
  "py_round2 x = of_int (round_half_even (x * 100)) / 100"






section \<open>scoring.py: AdvancedScoringAlgorithm\<close>










section \<open>scoring.py: MLBasedScoringAlgorithm\<close>














section \<open>scoring.py: the factory and calculate_project_score\<close>


definition str_of_error :: "error \<Rightarrow> string" where
  "str_of_error e =
     (case e of TypeError \<Rightarrow> ''TypeError'' | AttributeError \<Rightarrow> ''AttributeError''
      | KeyError \<Rightarrow> ''KeyError'' | ValidationError \<Rightarrow> ''ValidationError''
      | LookupError \<Rightarrow> ''LookupError'')"



section \<open>routers/scoring.py: score_project\<close>



section \<open>ml_models/__init__.py: the bundle returned when the analysis fails\<close>

text \<open>The dictionary of the handler of \<^verbatim>\<open>analyze_project\<close> (message texts in English).\<close>

definition analyze_project_fallback :: "error \<Rightarrow> pyval" where
  "analyze_project_fallback e =
     PDict [(''category'', PDict [(''name'', PStr ''unknown''), (''confidence'', PNum 0.0)]),
            (''tech_stack_analysis'', PDict [(''detected_tech'', PList []), (''confidence'', PNum 0.0)]),
            (''features'', PDict []),
            (''nlp_analysis'', PDict []),
            (''complexity_score'', PNum 50.0),
            (''maturity_score'', PNum 50.0),
            (''risk_assessment'', PDict [(''level'', PStr ''medium''), (''factors'', PList [])]),
            (''recommendations'', PList [PStr ''error during analysis'']),
            (''model_versions'', PDict [(''classifier'', PStr ''error''), (''tech_analyzer'', PStr ''error'')]),
            (''error'', PStr (str_of_error e))]"

section \<open>Predicates used in the statements\<close>







section \<open>Strings\<close>

text \<open>The character classes of \<^verbatim>\<open>str.isspace\<close>, \<^verbatim>\<open>\d\<close> and \<^verbatim>\<open>\w\<close> on ASCII text, and
  \<^verbatim>\<open>str.lower\<close>.\<close>

definition upper_letters :: string where
  "upper_letters = ''ABCDEFGHIJKLMNOPQRSTUVWXYZ''"

definition lower_letters :: string where
  "lower_letters = ''abcdefghijklmnopqrstuvwxyz''"

definition is_space :: "char \<Rightarrow> bool" where
  "is_space c = (c \<in> set [CHR 0x09, CHR 0x0A, CHR 0x0B, CHR 0x0C, CHR 0x0D,
                            CHR 0x1C, CHR 0x1D, CHR 0x1E, CHR 0x1F, CHR 0x20])"

definition is_digit :: "char \<Rightarrow> bool" where
  "is_digit c = (c \<in> set ''0123456789'')"

definition is_word :: "char \<Rightarrow> bool" where
  "is_word c = (c \<in> set lower_letters \<or> c \<in> set upper_letters \<or> is_digit c \<or> c = CHR ''_'')"

definition lower_char :: "char \<Rightarrow> char" where
  "lower_char c = (case map_of (zip upper_letters lower_letters) c of Some l \<Rightarrow> l | None \<Rightarrow> c)"

definition lower :: "string \<Rightarrow> string" where
  "lower s = map lower_char s"

definition strip :: "string \<Rightarrow> string" where
  "strip s = rev (dropWhile is_space (rev (dropWhile is_space s)))"

text \<open>Maximal runs of characters that are not separators: \<^verbatim>\<open>s.split()\<close> with white
  space as separator, \<^verbatim>\<open>re.findall(r'\b\w+\b', s)\<close> with the non-word characters.\<close>

fun split_on :: "(char \<Rightarrow> bool) \<Rightarrow> string \<Rightarrow> string \<Rightarrow> string list" where
  "split_on sep cur [] = (if cur = [] then [] else [cur])"
| "split_on sep cur (c # cs) =
     (if sep c then (if cur = [] then split_on sep [] cs else cur # split_on sep [] cs)
      else split_on sep (cur @ [c]) cs)"

definition split_ws :: "string \<Rightarrow> string list" where
  "split_ws s = split_on is_space [] s"

definition find_words :: "string \<Rightarrow> string list" where
  "find_words s = split_on (\<lambda>c. \<not> is_word c) [] s"

text \<open>\<^verbatim>\<open>' '.join(xs)\<close>.\<close>

fun join_sp :: "string list \<Rightarrow> string" where
  "join_sp [] = []"
| "join_sp [x] = x"
| "join_sp (x # y # ys) = x @ '' '' @ join_sp (y # ys)"

section \<open>tech_stack_analyzer.py: the lexicon\<close>

record tech_info =
  ti_name :: string
  ti_category :: string
  ti_aliases :: "string list"

text \<open>
  A lexicon: \<^verbatim>\<open>self.tech_definitions\<close>, a dictionary in insertion order, and the alias
  dictionary built from it.  \<^verbatim>\<open>self.tech_categories\<close> holds the category of each
  definition under the same key; \<^verbatim>\<open>self.popularity_scores\<close> is never filled, so every
  popularity read gives its default 0.5.
\<close>

record lexicon =
  tech_definitions :: "(string \<times> tech_info) list"
  tech_aliases :: "(string \<times> string) list"

definition common_aliases :: "(string \<times> string list) list" where
  "common_aliases =
     [(''javascript'', [''js'', ''ecmascript'']),
      (''python'', [''py'']),
      (''c++'', [''cpp'']),
      (''c#'', [''csharp'']),
      (''go'', [''golang'']),
      (''react'', [''reactjs'']),
      (''vue'', [''vuejs'']),
      (''angular'', [''angularjs'']),
      (''postgresql'', [''postgres'']),
      (''elasticsearch'', [''es'']),
      (''google_cloud'', [''gcp'']),
      (''kubernetes'', [''k8s''])]"

definition get_tech_aliases :: "string \<Rightarrow> string list" where
  "get_tech_aliases tech_name =
     (case map_of common_aliases (lower tech_name) of Some al \<Rightarrow> al | None \<Rightarrow> [])"

text \<open>One iteration of the loop of \<^verbatim>\<open>_build_alias_mapping\<close>: the name itself, its
  aliases in lower case, and for a name of several words the acronym of their initials.\<close>

definition alias_step :: "string \<times> tech_info \<Rightarrow> (string \<times> string) list \<Rightarrow> (string \<times> string) list" where
  "alias_step entry aliases =
     (let tech_name = fst entry; info = snd entry;
          aliases = AList.update tech_name tech_name aliases;
          aliases = fold (\<lambda>alias al. AList.update (lower alias) tech_name al) (ti_aliases info) aliases;
          words = split_ws (ti_name info)
      in if CHR '' '' \<in> set (ti_name info) \<and> length words > 1
         then AList.update (concat (map (\<lambda>word. lower (take 1 word)) words)) tech_name aliases
         else aliases)"

definition build_alias_mapping :: "(string \<times> tech_info) list \<Rightarrow> (string \<times> string) list" where
  "build_alias_mapping defs = fold alias_step defs []"

definition mk_lexicon :: "(string \<times> tech_info) list \<Rightarrow> lexicon" where
  "mk_lexicon defs = \<lparr>tech_definitions = defs, tech_aliases = build_alias_mapping defs\<rparr>"

text \<open>The table of \<^verbatim>\<open>_create_basic_definitions\<close>, in the order of the source.\<close>

definition basic_tech :: "(string \<times> string \<times> string list) list" where
  "basic_tech =
     [(''python'', ''language'', [''py'']),
      (''javascript'', ''language'', [''js'', ''ecmascript'']),
      (''java'', ''language'', []),
      (''c++'', ''language'', [''cpp'']),
      (''c#'', ''language'', [''csharp'']),
      (''go'', ''language'', [''golang'']),
      (''rust'', ''language'', []),
      (''ruby'', ''language'', []),
      (''php'', ''language'', []),
      (''swift'', ''language'', []),
      (''django'', ''framework'', []),
      (''flask'', ''framework'', []),
      (''fastapi'', ''framework'', []),
      (''express'', ''framework'', [''expressjs'']),
      (''react'', ''framework'', [''reactjs'']),
      (''vue'', ''framework'', [''vuejs'']),
      (''angular'', ''framework'', [''angularjs'']),
      (''spring'', ''framework'', [''spring boot'']),
      (''laravel'', ''framework'', []),
      (''postgresql'', ''database'', [''postgres'']),
      (''mysql'', ''database'', []),
      (''mongodb'', ''database'', [''mongo'']),
      (''redis'', ''database'', []),
      (''elasticsearch'', ''database'', [''es'']),
      (''cassandra'', ''database'', []),
      (''aws'', ''cloud'', [''amazon web services'']),
      (''azure'', ''cloud'', [''microsoft azure'']),
      (''google_cloud'', ''cloud'', [''gcp'']),
      (''aliyun'', ''cloud'', [''alibaba cloud'']),
      (''heroku'', ''cloud'', []),
      (''docker'', ''tool'', []),
      (''kubernetes'', ''tool'', [''k8s'']),
      (''git'', ''tool'', [''github'', ''gitlab'']),
      (''jenkins'', ''tool'', []),
      (''terraform'', ''tool'', [])]"

definition create_basic_definitions :: lexicon where
  "create_basic_definitions =
     mk_lexicon
       (fold (\<lambda>(tech_name, category, aliases) defs.
                AList.update tech_name
                  \<lparr>ti_name = tech_name, ti_category = category, ti_aliases = aliases\<rparr> defs)
          basic_tech [])"

text \<open>
  \<^verbatim>\<open>_load_tech_definitions\<close>.  The table \<^verbatim>\<open>settings.TECH_STACKS\<close> (category to list of
  names) is not part of the sources at hand and is a parameter; \<open>None\<close> stands for a
  failed read, which the handler answers with the basic definitions.
\<close>

definition load_tech_definitions :: "(string \<times> string list) list option \<Rightarrow> lexicon" where
  "load_tech_definitions tech_stacks =
     (case tech_stacks of
        None \<Rightarrow> create_basic_definitions
      | Some table \<Rightarrow>
          mk_lexicon
            (fold (\<lambda>(category, tech_list) defs.
                     fold (\<lambda>tech defs.
                             AList.update (lower tech)
                               \<lparr>ti_name = tech, ti_category = category,
                                ti_aliases = get_tech_aliases tech\<rparr> defs)
                       tech_list defs)
               table []))"

section \<open>tech_stack_analyzer.py: normalising a name and detecting technologies\<close>

text \<open>\<^verbatim>\<open>_clean_tech_name\<close>: digits and dots go, then every character that is neither a
  word character nor white space, then white space is collapsed.\<close>

definition clean_tech_name :: "string \<Rightarrow> string" where
  "clean_tech_name tech_name =
     (let clean_name = filter (\<lambda>c. \<not> (is_digit c \<or> c = CHR ''.'')) tech_name;
          clean_name = filter (\<lambda>c. is_word c \<or> is_space c) clean_name;
          clean_name = join_sp (split_ws clean_name)
      in strip clean_name)"

definition normalize_tech_name :: "lexicon \<Rightarrow> string \<Rightarrow> string option" where
  "normalize_tech_name lx tech_name =
     (if tech_name = [] then None
      else
        let tech_lower = lower (strip tech_name);
            defined = map fst (tech_definitions lx)
        in if tech_lower \<in> set defined then Some tech_lower
           else case map_of (tech_aliases lx) tech_lower of
                  Some canonical \<Rightarrow> Some canonical
                | None \<Rightarrow>
                    let clean_name = clean_tech_name tech_lower
                    in if clean_name \<noteq> [] \<and> clean_name \<in> set defined then Some clean_name
                       else find (\<lambda>defined_tech. str_contains tech_lower defined_tech
                                     \<or> str_contains defined_tech tech_lower) defined)"

text \<open>\<^verbatim>\<open>if normalized: detected.add(normalized)\<close>: an empty name is not added.\<close>

definition add_if :: "string option \<Rightarrow> string list" where
  "add_if normalized = (case normalized of Some n \<Rightarrow> (if n \<noteq> [] then [n] else []) | None \<Rightarrow> [])"

fun scan_words :: "lexicon \<Rightarrow> string list \<Rightarrow> string list" where
  "scan_words lx [] = []"
| "scan_words lx (w # ws) =
     add_if (normalize_tech_name lx w)
     @ (case ws of [] \<Rightarrow> [] | w2 # rest \<Rightarrow> add_if (normalize_tech_name lx (w @ '' '' @ w2)))
     @ scan_words lx ws"

text \<open>\<^verbatim>\<open>_extract_from_text\<close>; the Python set is kept as the list of additions, duplicates
  included, and made a set where it is read.\<close>

definition extract_from_text :: "lexicon \<Rightarrow> string \<Rightarrow> string list" where
  "extract_from_text lx text = (if text = [] then [] else scan_words lx (find_words (lower text)))"

text \<open>
  A project record.  The description may be \<open>None\<close>, the metadata may be \<open>None\<close> or a
  dictionary with values of any type; the technology list holds strings (a missing list is
  read as the empty list everywhere).
\<close>

record project =
  p_name :: string
  p_description :: "string option"
  p_tech_stack :: "string list"
  p_metadata :: "(string \<times> pyval) list option"

definition metadata_strings :: "project \<Rightarrow> string list" where
  "metadata_strings project_data =
     (case p_metadata project_data of
        None \<Rightarrow> []
      | Some md \<Rightarrow> concat (map (\<lambda>(k, v). case v of PStr s \<Rightarrow> [s] | _ \<Rightarrow> []) md))"

text \<open>Everything added to the set \<open>detected\<close>, in the order of the four sources.\<close>

definition detected_additions :: "lexicon \<Rightarrow> project \<Rightarrow> string list" where
  "detected_additions lx project_data =
     concat (map (\<lambda>tech. add_if (normalize_tech_name lx tech)) (p_tech_stack project_data))
     @ (case p_description project_data of
          None \<Rightarrow> []
        | Some d \<Rightarrow> if d \<noteq> [] then extract_from_text lx (lower d) else [])
     @ (if p_name project_data \<noteq> [] then extract_from_text lx (lower (p_name project_data)) else [])
     @ concat (map (\<lambda>value. extract_from_text lx (lower value)) (metadata_strings project_data))"

text \<open>\<^verbatim>\<open>_detect_technologies\<close>: \<^verbatim>\<open>list(detected)\<close> enumerates the set in some order, then
  \<^verbatim>\<open>sort()\<close> orders the names by code points.\<close>

definition detect_technologies :: "lexicon \<Rightarrow> project \<Rightarrow> string list" where
  "detect_technologies lx project_data = sort (remdups (detected_additions lx project_data))"

text \<open>The four stages of name resolution, one by one, and the first match of a list
  of stage results.\<close>

definition exact_match :: "lexicon \<Rightarrow> string \<Rightarrow> string option" where
  "exact_match lx token =
     (let t = lower (strip token)
      in if t \<in> set (map fst (tech_definitions lx)) then Some t else None)"

definition alias_match :: "lexicon \<Rightarrow> string \<Rightarrow> string option" where
  "alias_match lx token = map_of (tech_aliases lx) (lower (strip token))"

definition cleaned_match :: "lexicon \<Rightarrow> string \<Rightarrow> string option" where
  "cleaned_match lx token =
     (let c = clean_tech_name (lower (strip token))
      in if c \<noteq> [] \<and> c \<in> set (map fst (tech_definitions lx)) then Some c else None)"

definition substring_match :: "lexicon \<Rightarrow> string \<Rightarrow> string option" where
  "substring_match lx token =
     (let t = lower (strip token)
      in find (\<lambda>d. str_contains t d \<or> str_contains d t) (map fst (tech_definitions lx)))"

fun first_match :: "string option list \<Rightarrow> string option" where
  "first_match [] = None"
| "first_match (Some x # rest) = Some x"
| "first_match (None # rest) = first_match rest"

section \<open>nlp_processor.py: analyze_text and the summary\<close>

text \<open>Python slices \<^verbatim>\<open>xs[:k]\<close> and \<^verbatim>\<open>xs[j:]\<close>; a negative bound counts from the end.\<close>

definition slice_to :: "'a list \<Rightarrow> int \<Rightarrow> 'a list" where
  "slice_to xs k = (if 0 \<le> k then take (nat k) xs else take (nat (int (length xs) + k)) xs)"

definition slice_from :: "'a list \<Rightarrow> int \<Rightarrow> 'a list" where
  "slice_from xs j = (if 0 \<le> j then drop (nat j) xs else drop (nat (int (length xs) + j)) xs)"

text \<open>
  \<^verbatim>\<open>_generate_summary\<close>.  The sentence tokeniser of NLTK is the parameter
  \<open>sent_tokenize\<close>; when it raises, the handler returns the first 200 characters.
\<close>

definition generate_summary :: "(string \<Rightarrow> error + string list) \<Rightarrow> string \<Rightarrow> int \<Rightarrow> string" where
  "generate_summary sent_tokenize txt max_sentences =
     (case sent_tokenize txt of
        Inl e \<Rightarrow> (if length txt > 200 then take 200 txt @ ''...'' else txt)
      | Inr sentences \<Rightarrow>
          if sentences = [] then []
          else if int (length sentences) \<le> max_sentences then join_sp sentences
          else
            let first_part = slice_to sentences (max_sentences div 2 + 1);
                last_part = slice_from sentences (- (max_sentences div 2))
            in join_sp (first_part @ last_part))"

definition empty_analysis_result :: "string \<Rightarrow> pyval" where
  "empty_analysis_result version =
     PDict [(''basic'', PDict [(''word_count'', PNum 0), (''sentence_count'', PNum 0)]),
            (''keywords'', PDict [(''categories'', PDict [])]),
            (''sentiment'', PDict [(''score'', PNum 0.0), (''label'', PStr ''neutral'')]),
            (''entities'', PDict [(''count'', PNum 0), (''list'', PList [])]),
            (''topics'', PDict [(''count'', PNum 0), (''list'', PList [])]),
            (''readability'', PDict [(''score'', PNum 0.0), (''level'', PStr ''unknown'')]),
            (''summary'', PStr []),
            (''metadata'', PDict [(''text_length'', PNum 0), (''processing_time'', PStr ''instant''),
                                  (''model_version'', PStr version)])]"

definition failed_analysis_result :: "error \<Rightarrow> pyval" where
  "failed_analysis_result e =
     PDict [(''error'', PStr (str_of_error e)),
            (''basic'', PDict [(''word_count'', PNum 0), (''sentence_count'', PNum 0)]),
            (''keywords'', PDict [(''categories'', PDict [])]),
            (''sentiment'', PDict [(''score'', PNum 0.0), (''label'', PStr ''neutral'')]),
            (''entities'', PDict [(''count'', PNum 0), (''list'', PList [])]),
            (''topics'', PDict [(''count'', PNum 0), (''list'', PList [])]),
            (''readability'', PDict [(''score'', PNum 0.0), (''level'', PStr ''unknown'')])]"

text \<open>
  \<^verbatim>\<open>analyze_text\<close>.  The argument may be any value.  The analysis of a non-empty
  stripped text (tokenisation, lemmatisation and tagging by NLTK, then the result
  dictionary) is the parameter \<open>full_analysis\<close>, which may raise.
\<close>

definition analyze_text :: "string \<Rightarrow> (string \<Rightarrow> error + pyval) \<Rightarrow> pyval \<Rightarrow> pyval" where
  "analyze_text version full_analysis txt =
     (case txt of
        PStr s \<Rightarrow>
          if s = [] then empty_analysis_result version
          else
            let stripped = strip s
            in if stripped = [] then empty_analysis_result version
               else (case full_analysis stripped of
                       Inl e \<Rightarrow> failed_analysis_result e
                     | Inr analysis_result \<Rightarrow> analysis_result)
      | _ \<Rightarrow> empty_analysis_result version)"

section \<open>project_classifier.py: predict\<close>

text \<open>\<^verbatim>\<open>_clean_text\<close>: lower case, every character that is neither a word character nor
  white space becomes a blank, white space is collapsed.\<close>

definition clean_text :: "string \<Rightarrow> string" where
  "clean_text txt =
     (if txt = [] then []
      else join_sp (split_ws (map (\<lambda>c. if is_word c \<or> is_space c then c else CHR '' '') (lower txt))))"

definition classifier_text_features :: "project \<Rightarrow> string" where
  "classifier_text_features project_data =
     (let text_parts =
            (if p_name project_data \<noteq> [] then [p_name project_data] else [])
            @ (case p_description project_data of
                 None \<Rightarrow> [] | Some d \<Rightarrow> if d \<noteq> [] then [d] else [])
            @ (if p_tech_stack project_data \<noteq> [] then [join_sp (p_tech_stack project_data)] else [])
            @ metadata_strings project_data
      in clean_text (join_sp text_parts))"

definition unknown_category :: pyval where
  "unknown_category =
     PDict [(''name'', PStr ''unknown''), (''confidence'', PNum 0.0),
            (''category_probabilities'', PDict [(''unknown'', PNum 1.0)]),
            (''top_categories'', PList [PList [PStr ''unknown'', PNum 1.0]])]"

definition unknown_category_error :: "error \<Rightarrow> pyval" where
  "unknown_category_error e =
     PDict [(''name'', PStr ''unknown''), (''confidence'', PNum 0.0),
            (''category_probabilities'', PDict [(''unknown'', PNum 1.0)]),
            (''top_categories'', PList [PList [PStr ''unknown'', PNum 1.0]]),
            (''error'', PStr (str_of_error e))]"

text \<open>
  \<^verbatim>\<open>predict\<close>.  \<open>loaded\<close> is the outcome of making the model available (\<open>Inl e\<close> when
  loading raises); the model maps the text to the prediction dictionary and may raise.
  With no text the model is not called.
\<close>

definition predict :: "error + (string \<Rightarrow> error + pyval) \<Rightarrow> project \<Rightarrow> pyval" where
  "predict loaded project_data =
     (case loaded of
        Inl e \<Rightarrow> unknown_category_error e
      | Inr model \<Rightarrow>
          let text_features = classifier_text_features project_data
          in if strip text_features \<noteq> [] then
               (case model text_features of
                  Inl e \<Rightarrow> unknown_category_error e
                | Inr prediction \<Rightarrow> prediction)
             else unknown_category)"

section \<open>tech_stack_analyzer.py: analyze_tech_stack\<close>

definition mean :: "real list \<Rightarrow> real" where
  "mean xs = sum_list xs / real (length xs)"

text \<open>\<^verbatim>\<open>self.tech_categories.get(tech, default)\<close>.\<close>

definition category_of :: "lexicon \<Rightarrow> string \<Rightarrow> string \<Rightarrow> string" where
  "category_of lx tech dflt =
     (case map_of (tech_definitions lx) tech of Some info \<Rightarrow> ti_category info | None \<Rightarrow> dflt)"

text \<open>\<^verbatim>\<open>dict(Counter(categories))\<close>.\<close>

definition counter :: "string list \<Rightarrow> (string \<times> real) list" where
  "counter xs = fold (\<lambda>x d. AList.update x (dict_get_real d x 0 + 1) d) xs []"

text \<open>
  \<^verbatim>\<open>_calculate_cohesion\<close>.  The mean pairwise cosine similarity of the TF-IDF vectors
  is the parameter \<open>similarity\<close>: \<open>None\<close> when no vectoriser is loaded, and a function
  that may raise otherwise.
\<close>

definition calculate_cohesion :: "(string list \<Rightarrow> error + real) option \<Rightarrow> string list \<Rightarrow> real" where
  "calculate_cohesion similarity detected_tech =
     (if length detected_tech \<le> 1 then 1.0
      else case similarity of
             None \<Rightarrow> 0.5
           | Some f \<Rightarrow> (case f detected_tech of Inl e \<Rightarrow> 0.5 | Inr c \<Rightarrow> c))"

definition analyze_tech_features ::
  "lexicon \<Rightarrow> (string list \<Rightarrow> error + real) option \<Rightarrow> string list \<Rightarrow> (string \<times> pyval) list" where
  "analyze_tech_features lx similarity detected_tech =
     (if detected_tech = [] then
        [(''diversity'', PNum 0.0), (''maturity'', PNum 0.0),
         (''complexity'', PNum 0.0), (''cohesion'', PNum 0.0)]
      else
        let categories = map (\<lambda>tech. category_of lx tech ''unknown'') detected_tech;
            diversity = real (length (remdups categories))
                        / real (max (length (tech_definitions lx)) 1);
            maturity = mean (map (\<lambda>tech. 0.5) detected_tech);
            complexity = min (real (length detected_tech) / 10) 1.0;
            cohesion = calculate_cohesion similarity detected_tech
        in [(''diversity'', PNum diversity), (''maturity'', PNum maturity),
            (''complexity'', PNum complexity), (''cohesion'', PNum cohesion),
            (''category_distribution'', num_dict (counter categories))])"

definition outdated_tech_list :: "string list" where
  "outdated_tech_list =
     [''jquery'', ''backbone'', ''ember'', ''knockout'',
      ''php5'', ''python2'', ''ruby1.8'',
      ''mysql4'', ''mongodb2'',
      ''flash'', ''silverlight'']"

definition is_outdated_tech :: "string \<Rightarrow> bool" where
  "is_outdated_tech tech_name = (tech_name \<in> set outdated_tech_list)"

text \<open>\<^verbatim>\<open>_get_tech_details\<close>; the sort by popularity is stable and all popularities are
  0.5, so the order is that of the detected list.\<close>

definition get_tech_details :: "lexicon \<Rightarrow> string list \<Rightarrow> pyval list" where
  "get_tech_details lx detected_tech =
     map (\<lambda>tech.
            PDict [(''name'', PStr (case map_of (tech_definitions lx) tech of
                                      Some info \<Rightarrow> ti_name info | None \<Rightarrow> tech)),
                   (''normalized_name'', PStr tech),
                   (''category'', PStr (category_of lx tech ''unknown'')),
                   (''popularity_score'', PNum 0.5),
                   (''aliases'', PList (map PStr (case map_of (tech_definitions lx) tech of
                                                   Some info \<Rightarrow> ti_aliases info | None \<Rightarrow> []))),
                   (''is_outdated'', PBool (is_outdated_tech tech))])
         detected_tech"

definition calculate_confidence :: "lexicon \<Rightarrow> string list \<Rightarrow> project \<Rightarrow> real" where
  "calculate_confidence lx detected_tech project_data =
     (let confidence = 0.0;
          confidence = (if p_tech_stack project_data \<noteq> [] then confidence + 0.4 else confidence);
          tech_count = length detected_tech;
          confidence = (if tech_count > 0 then confidence + min (real tech_count * 0.1) 0.3
                        else confidence);
          confidence = (case p_description project_data of
                          None \<Rightarrow> confidence
                        | Some d \<Rightarrow> if length d > 100 then confidence + 0.2 else confidence);
          normalized_count =
            length (filter (\<lambda>tech. tech \<in> set (map fst (tech_definitions lx))) detected_tech);
          confidence = (if detected_tech \<noteq> [] then
                          confidence + (real normalized_count / real (length detected_tech)) * 0.1
                        else confidence)
      in min confidence 1.0)"

text \<open>\<^verbatim>\<open>_categorize_technologies\<close>: category to the list of its technologies.\<close>

definition group_by_category :: "(string \<Rightarrow> string) \<Rightarrow> string list \<Rightarrow> (string \<times> string list) list" where
  "group_by_category cat techs =
     fold (\<lambda>tech categories.
             AList.update (cat tech)
               ((case map_of categories (cat tech) of Some l \<Rightarrow> l | None \<Rightarrow> []) @ [tech])
               categories)
       techs []"

definition categorize_technologies :: "lexicon \<Rightarrow> string list \<Rightarrow> (string \<times> string list) list" where
  "categorize_technologies lx detected_tech =
     group_by_category (\<lambda>tech. category_of lx tech ''other'') detected_tech"

text \<open>\<^verbatim>\<open>', '.join(xs)\<close>.\<close>

fun join_comma :: "string list \<Rightarrow> string" where
  "join_comma [] = []"
| "join_comma [x] = x"
| "join_comma (x # y # ys) = x @ '', '' @ join_comma (y # ys)"

text \<open>\<^verbatim>\<open>_generate_tech_recommendations\<close> (the texts of the recommendations in English).\<close>

definition generate_tech_recommendations ::
  "lexicon \<Rightarrow> string list \<Rightarrow> (string \<times> pyval) list \<Rightarrow> string list" where
  "generate_tech_recommendations lx detected_tech analysis =
     (let categories = map fst (categorize_technologies lx detected_tech);
          recommendations =
            (if ''language'' \<notin> set categories then [''specify the main programming language''] else [])
            @ (if ''framework'' \<notin> set categories then [''use a suitable framework''] else [])
            @ (if ''database'' \<notin> set categories then [''choose a suitable database system''] else []);
          diversity = (case map_of analysis ''diversity'' of Some (PNum d) \<Rightarrow> d | _ \<Rightarrow> 0.0);
          recommendations =
            recommendations
            @ (if diversity < 0.3 then [''the stack is too uniform'']
               else if diversity > 0.8 then [''the stack is too complex''] else []);
          outdated_tech = filter is_outdated_tech detected_tech;
          recommendations =
            recommendations
            @ (if outdated_tech \<noteq> [] then
                 [''outdated technologies found: '' @ join_comma outdated_tech @ '', upgrade or replace'']
               else []);
          cohesion = (case map_of analysis ''cohesion'' of Some (PNum c) \<Rightarrow> c | _ \<Rightarrow> 0.5);
          recommendations =
            recommendations @ (if cohesion < 0.3 then [''the cohesion of the stack is low''] else []);
          additional = [''add an automated test framework'', ''set up CI/CD'',
                        ''add monitoring and logging'', ''use containers (such as Docker)''];
          recommendations =
            (if length recommendations < 3 then
               recommendations @ take (3 - length recommendations) additional
             else recommendations)
      in take 5 recommendations)"

text \<open>\<^verbatim>\<open>analyze_tech_stack\<close> on a loaded lexicon.  No step of the body raises on a project
  record; the dictionary of the handler is \<open>analyze_tech_stack_failed\<close>.\<close>

definition analyze_tech_stack ::
  "lexicon \<Rightarrow> (string list \<Rightarrow> error + real) option \<Rightarrow> project \<Rightarrow> pyval" where
  "analyze_tech_stack lx similarity project_data =
     (let detected_tech = detect_technologies lx project_data;
          analysis = analyze_tech_features lx similarity detected_tech;
          tech_details = get_tech_details lx detected_tech;
          confidence = calculate_confidence lx detected_tech project_data;
          recommendations = generate_tech_recommendations lx detected_tech analysis
      in PDict [(''detected_tech'', PList (map PStr detected_tech)),
                (''tech_details'', PList tech_details),
                (''analysis'', PDict analysis),
                (''confidence'', PNum confidence),
                (''recommendations'', PList (map PStr recommendations)),
                (''tech_categories'',
                   PDict (map (\<lambda>(c, techs). (c, PList (map PStr techs)))
                            (categorize_technologies lx detected_tech)))])"

definition analyze_tech_stack_failed :: "error \<Rightarrow> pyval" where
  "analyze_tech_stack_failed e =
     PDict [(''detected_tech'', PList []), (''analysis'', PDict []),
            (''confidence'', PNum 0.0), (''error'', PStr (str_of_error e))]"

section \<open>feature_extractor.py: extract_features\<close>

text \<open>
  The feature dictionary of a project record holds numbers only; it is built as a
  dictionary of reals and turned into a \<open>pyval\<close> at the end (\<^verbatim>\<open>_make_serializable\<close>
  leaves numbers as they are).  \<^verbatim>\<open>features.update(d)\<close> is \<open>dict_update\<close>.
\<close>

definition dict_update :: "(string \<times> 'v) list \<Rightarrow> (string \<times> 'v) list \<Rightarrow> (string \<times> 'v) list" where
  "dict_update features d = fold (\<lambda>(k, v) f. AList.update k v f) d features"

text \<open>The number of maximal runs of characters of a class; \<^verbatim>\<open>len(re.split(r'[.!?]+', s))\<close>
  is the number of runs of sentence marks plus one.\<close>

fun count_runs :: "(char \<Rightarrow> bool) \<Rightarrow> bool \<Rightarrow> string \<Rightarrow> nat" where
  "count_runs P in_run [] = 0"
| "count_runs P in_run (c # cs) =
     (if P c then (if in_run then 0 else 1) + count_runs P True cs
      else count_runs P False cs)"

definition project_text_parts :: "project \<Rightarrow> string list" where
  "project_text_parts project_data =
     (if p_name project_data \<noteq> [] then [p_name project_data] else [])
     @ (case p_description project_data of
          None \<Rightarrow> [] | Some d \<Rightarrow> if d \<noteq> [] then [d] else [])
     @ metadata_strings project_data"

text \<open>\<^verbatim>\<open>np.argmax\<close> (the first index of the maximum) and \<^verbatim>\<open>_calculate_entropy\<close>.\<close>

definition argmax :: "real list \<Rightarrow> nat" where
  "argmax xs = length (takeWhile (\<lambda>x. x \<noteq> Max (set xs)) xs)"

definition calculate_entropy :: "real list \<Rightarrow> real" where
  "calculate_entropy distribution =
     (let positive = filter (\<lambda>p. p > 0) distribution
      in if positive = [] then 0.0 else - sum_list (map (\<lambda>p. p * log 2 p) positive))"

definition topic_weight_keys :: "string list" where
  "topic_weight_keys =
     [''topic_0_weight'', ''topic_1_weight'', ''topic_2_weight'', ''topic_3_weight'', ''topic_4_weight'']"

text \<open>The topic features of a fitted topic distribution; on an empty distribution
  \<^verbatim>\<open>np.argmax\<close> raises and nothing has been added.\<close>

definition topic_features :: "real list \<Rightarrow> (string \<times> real) list" where
  "topic_features distribution =
     (if distribution = [] then []
      else zip topic_weight_keys (take 5 distribution)
           @ [(''main_topic'', real (argmax distribution)),
              (''topic_entropy'', calculate_entropy distribution)])"

text \<open>The basic text features of \<^verbatim>\<open>_extract_text_features\<close>, computed from the joined
  text.\<close>

definition text_statistics :: "string \<Rightarrow> (string \<times> real) list" where
  "text_statistics full_text =
     (let word_count = length (split_ws full_text);
          sentence_count = count_runs (\<lambda>c. c \<in> set ''.!?'') False full_text + 1;
          words = split_ws (lower full_text);
          unique_words = remdups words;
          lexical_diversity =
            (if words \<noteq> [] then real (length unique_words) / real (length words) else 0.0);
          avg_word_length =
            (if words \<noteq> [] then mean (map (\<lambda>word. real (length word)) words) else 0.0);
          readability_score =
            (if sentence_count > 0 \<and> word_count > 0 then
               206.835 - 1.015 * (real word_count / real sentence_count)
                 - 84.6 * (if avg_word_length \<noteq> 0 then avg_word_length else 5)
             else 0.0)
      in [(''text_length'', real (length full_text)),
          (''word_count'', real word_count),
          (''sentence_count'', real sentence_count),
          (''vocabulary_size'', real (length unique_words)),
          (''lexical_diversity'', lexical_diversity),
          (''avg_word_length'', avg_word_length),
          (''readability_score'', readability_score)])"

text \<open>
  \<^verbatim>\<open>_extract_text_features\<close>.  Fitting the vectoriser and the topic model on the text is
  the parameter \<open>lda\<close>: \<open>None\<close> when they are not loaded, otherwise a function from the
  text to the topic distribution, which may raise (the handler then adds no topic feature).
\<close>

definition extract_text_features ::
  "(string \<Rightarrow> error + real list) option \<Rightarrow> project \<Rightarrow> (string \<times> real) list" where
  "extract_text_features lda project_data =
     (let full_text = join_sp (project_text_parts project_data);
          features = text_statistics full_text
      in if length full_text > 100 then
           (case lda of
              None \<Rightarrow> features
            | Some fit \<Rightarrow>
                (case fit full_text of
                   Inl e \<Rightarrow> features
                 | Inr distribution \<Rightarrow> dict_update features (topic_features distribution)))
         else features)"

definition category_map :: "(string \<times> string list) list" where
  "category_map =
     [(''language'', [''python'', ''javascript'', ''java'', ''c++'', ''c#'', ''go'', ''rust'', ''ruby'',
                      ''php'', ''swift'']),
      (''framework'', [''django'', ''flask'', ''fastapi'', ''express'', ''react'', ''vue'', ''angular'',
                       ''spring'', ''laravel'']),
      (''database'', [''postgresql'', ''mysql'', ''mongodb'', ''redis'', ''elasticsearch'', ''cassandra'']),
      (''cloud'', [''aws'', ''azure'', ''google_cloud'', ''aliyun'', ''heroku'']),
      (''tool'', [''docker'', ''kubernetes'', ''git'', ''jenkins'', ''terraform''])]"

definition mapped_category :: "string \<Rightarrow> string" where
  "mapped_category tech =
     (case find (\<lambda>(category, techs). lower tech \<in> set techs) category_map of
        Some (category, techs) \<Rightarrow> category
      | None \<Rightarrow> ''other'')"

definition popular_tech :: "string list" where
  "popular_tech = [''python'', ''javascript'', ''react'', ''docker'', ''postgresql'']"

definition extract_tech_features :: "project \<Rightarrow> (string \<times> real) list" where
  "extract_tech_features project_data =
     (let tech_stack = p_tech_stack project_data;
          tech_categories = group_by_category mapped_category tech_stack;
          popular_count = length (filter (\<lambda>tech. lower tech \<in> set popular_tech) tech_stack)
      in [(''tech_count'', real (length tech_stack)),
          (''tech_diversity'',
             min (real (length (remdups tech_stack)) / real (max (length tech_stack) 1)) 1.0),
          (''tech_category_count'', real (length tech_categories)),
          (''popular_tech_ratio'', real popular_count / real (max (length tech_stack) 1))])"

definition numeric_values :: "(string \<times> pyval) list \<Rightarrow> real list" where
  "numeric_values md =
     concat (map (\<lambda>(k, v). case v of PNum x \<Rightarrow> [x] | PBool b \<Rightarrow> [if b then 1 else 0] | _ \<Rightarrow> []) md)"

definition list_counts :: "(string \<times> pyval) list \<Rightarrow> (string \<times> real) list" where
  "list_counts md =
     concat (map (\<lambda>(k, v). case v of
                               PList vs \<Rightarrow> [(''metadata_list_'' @ k @ ''_count'', real (length vs))]
                             | _ \<Rightarrow> []) md)"

text \<open>\<^verbatim>\<open>np.std\<close>: the population standard deviation.\<close>

definition std :: "real list \<Rightarrow> real" where
  "std xs = sqrt (mean (map (\<lambda>x. (x - mean xs)\<^sup>2) xs))"

definition extract_metadata_features :: "project \<Rightarrow> (string \<times> real) list" where
  "extract_metadata_features project_data =
     (case p_metadata project_data of
        None \<Rightarrow> []
      | Some md \<Rightarrow>
          let features = [(''metadata_field_count'', real (length md))];
              features = dict_update features (list_counts md);
              text_values = metadata_strings project_data;
              nums = numeric_values md;
              features = dict_update features
                [(''metadata_text_length'', real (sum_list (map length text_values))),
                 (''metadata_numeric_count'', real (length nums))]
          in if nums \<noteq> [] then
               dict_update features
                 [(''metadata_numeric_mean'', mean nums), (''metadata_numeric_std'', std nums)]
             else features)"

definition quality_keywords :: "(string \<times> string list) list" where
  "quality_keywords =
     [(''code'', [''clean'', ''maintainable'', ''readable'', ''modular'', ''tested'']),
      (''architecture'', [''scalable'', ''microservices'', ''modular'', ''decoupled'', ''layered'']),
      (''documentation'', [''documented'', ''api docs'', ''readme'', ''comments'', ''tutorial'']),
      (''testing'', [''unit test'', ''integration test'', ''coverage'', ''tdd'', ''bdd'']),
      (''security'', [''secure'', ''encrypted'', ''authentication'', ''authorization'', ''ssl''])]"

definition innovation_keywords :: "(string \<times> string list) list" where
  "innovation_keywords =
     [(''novelty'', [''innovative'', ''novel'', ''unique'', ''groundbreaking'', ''original'']),
      (''complexity'', [''complex'', ''sophisticated'', ''advanced'', ''cutting-edge'', ''state-of-art'']),
      (''automation'', [''automated'', ''ai'', ''machine learning'', ''intelligent'', ''smart''])]"

definition business_keywords :: "(string \<times> string list) list" where
  "business_keywords =
     [(''market'', [''market'', ''business'', ''commercial'', ''revenue'', ''profit'']),
      (''user'', [''user'', ''customer'', ''audience'', ''demand'', ''need'']),
      (''scale'', [''scalable'', ''growth'', ''expansion'', ''large-scale'', ''enterprise''])]"

text \<open>The score of every category of a keyword dictionary: matched keywords over the
  size of the category.\<close>

definition keyword_scores :: "(string \<times> string list) list \<Rightarrow> string \<Rightarrow> (string \<times> real) list" where
  "keyword_scores dictionary txt =
     map (\<lambda>(category, keywords).
            (category,
             real (length (filter (\<lambda>keyword. str_contains txt keyword) keywords))
               / real (max (length keywords) 1)))
       dictionary"

definition extract_keyword_features :: "project \<Rightarrow> (string \<times> real) list" where
  "extract_keyword_features project_data =
     (let txt = (if p_name project_data \<noteq> [] then '' '' @ p_name project_data else [])
                @ (case p_description project_data of
                     None \<Rightarrow> [] | Some d \<Rightarrow> if d \<noteq> [] then '' '' @ d else []);
          txt = lower txt;
          quality_scores = keyword_scores quality_keywords txt;
          innovation_scores = keyword_scores innovation_keywords txt;
          business_scores = keyword_scores business_keywords txt
      in [(''quality_score_code'', dict_get_real quality_scores ''code'' 0.0),
          (''quality_score_architecture'', dict_get_real quality_scores ''architecture'' 0.0),
          (''quality_score_documentation'', dict_get_real quality_scores ''documentation'' 0.0),
          (''quality_score_testing'', dict_get_real quality_scores ''testing'' 0.0),
          (''quality_score_security'', dict_get_real quality_scores ''security'' 0.0),
          (''overall_quality_score'', mean (map snd quality_scores)),
          (''innovation_score_novelty'', dict_get_real innovation_scores ''novelty'' 0.0),
          (''innovation_score_complexity'', dict_get_real innovation_scores ''complexity'' 0.0),
          (''innovation_score_automation'', dict_get_real innovation_scores ''automation'' 0.0),
          (''overall_innovation_score'', mean (map snd innovation_scores)),
          (''business_score_market'', dict_get_real business_scores ''market'' 0.0),
          (''business_score_user'', dict_get_real business_scores ''user'' 0.0),
          (''business_score_scale'', dict_get_real business_scores ''scale'' 0.0),
          (''overall_business_score'', mean (map snd business_scores))])"

definition extract_complexity_features :: "(string \<times> real) list \<Rightarrow> (string \<times> real) list" where
  "extract_complexity_features existing_features =
     (let tech_count = dict_get_real existing_features ''tech_count'' 0;
          tech_category_count = dict_get_real existing_features ''tech_category_count'' 0;
          tech_complexity = min (tech_count * 0.2 + tech_category_count * 0.3) 1.0;
          text_length = dict_get_real existing_features ''text_length'' 0;
          word_count = dict_get_real existing_features ''word_count'' 0;
          text_complexity = min ((text_length / 10000 + word_count / 500) / 2) 1.0;
          metadata_count = dict_get_real existing_features ''metadata_field_count'' 0;
          metadata_complexity = min (metadata_count / 20) 1.0;
          project_size = (if tech_count > 10 then 3 else if tech_count > 5 then 2
                          else if tech_count > 0 then 1 else 0)
      in [(''tech_complexity'', tech_complexity),
          (''text_complexity'', text_complexity),
          (''metadata_complexity'', metadata_complexity),
          (''overall_complexity'', mean [tech_complexity, text_complexity, metadata_complexity]),
          (''project_size'', project_size)])"

definition calculate_derived_features :: "(string \<times> real) list \<Rightarrow> (string \<times> real) list" where
  "calculate_derived_features features =
     (let quality_score = dict_get_real features ''overall_quality_score'' 0.0;
          tech_maturity = dict_get_real features ''popular_tech_ratio'' 0.0;
          complexity = dict_get_real features ''overall_complexity'' 0.5;
          quality = dict_get_real features ''overall_quality_score'' 0.5;
          tech_diversity = dict_get_real features ''tech_diversity'' 0.0;
          standardization = dict_get_real features ''popular_tech_ratio'' 0.0;
          documentation = dict_get_real features ''quality_score_documentation'' 0.0;
          code_quality = dict_get_real features ''quality_score_code'' 0.0;
          innovation = dict_get_real features ''overall_innovation_score'' 0.0;
          novelty = dict_get_real features ''innovation_score_novelty'' 0.0
      in [(''maturity_score'', (quality_score + tech_maturity) / 2),
          (''risk_score'', complexity * (1 - quality)),
          (''feasibility_score'', (standardization + (1 - tech_diversity)) / 2),
          (''maintainability_score'', (documentation + code_quality) / 2),
          (''innovation_potential'', (innovation + novelty) / 2)])"

text \<open>The feature dictionary as built step by step by \<^verbatim>\<open>extract_features\<close>.\<close>

definition feature_dict ::
  "(string \<Rightarrow> error + real list) option \<Rightarrow> project \<Rightarrow> (string \<times> real) list" where
  "feature_dict lda project_data =
     (let features = [];
          features = dict_update features (extract_text_features lda project_data);
          features = dict_update features (extract_tech_features project_data);
          features = dict_update features (extract_metadata_features project_data);
          features = dict_update features (extract_keyword_features project_data);
          features = dict_update features (extract_complexity_features features);
          features = dict_update features (calculate_derived_features features)
      in features)"

text \<open>\<^verbatim>\<open>extract_features\<close>.  No step of the body raises on a project record; the
  dictionary of the handler is \<open>extract_features_failed\<close>.\<close>

definition extract_features :: "(string \<Rightarrow> error + real list) option \<Rightarrow> project \<Rightarrow> pyval" where
  "extract_features lda project_data = num_dict (feature_dict lda project_data)"

definition extract_features_failed :: "error \<Rightarrow> pyval" where
  "extract_features_failed e =
     PDict [(''feature_extraction_error'', PStr (str_of_error e)),
            (''text_length'', PNum 0), (''tech_count'', PNum 0)]"

section \<open>ml_models/__init__.py: analyze_project\<close>

text \<open>\<^verbatim>\<open>len(x)\<close>, the elements \<^verbatim>\<open>for v in x\<close> visits, and \<^verbatim>\<open>', '.join(x)\<close>.\<close>

definition py_len :: "pyval \<Rightarrow> error + nat" where
  "py_len x =
     (case x of PList vs \<Rightarrow> Inr (length vs) | PStr s \<Rightarrow> Inr (length s)
      | PDict kvs \<Rightarrow> Inr (length kvs) | _ \<Rightarrow> Inl TypeError)"

definition py_iter :: "pyval \<Rightarrow> error + pyval list" where
  "py_iter x =
     (case x of PList vs \<Rightarrow> Inr vs | PStr s \<Rightarrow> Inr (map (\<lambda>c. PStr [c]) s)
      | PDict kvs \<Rightarrow> Inr (map (\<lambda>(k, v). PStr k) kvs) | _ \<Rightarrow> Inl TypeError)"

fun strings_of :: "pyval list \<Rightarrow> error + string list" where
  "strings_of [] = Inr []"
| "strings_of (PStr s # vs) = bind_e (strings_of vs) (\<lambda>r. Inr (s # r))"
| "strings_of (v # vs) = Inl TypeError"

definition py_join_comma :: "pyval \<Rightarrow> error + string" where
  "py_join_comma x =
     bind_e (py_iter x) (\<lambda>vs. bind_e (strings_of vs) (\<lambda>ss. Inr (join_comma ss)))"

text \<open>
  \<^verbatim>\<open>assess_risks\<close> (message texts in English, the figures inside them left out).  The
  state of the body is the pair of the factor list and the level.
\<close>

definition assess_risks_body :: "pyval \<Rightarrow> pyval \<Rightarrow> error + pyval" where
  "assess_risks_body features tech_analysis =
     bind_e (py_get tech_analysis ''outdated_technologies'' (PList [])) (\<lambda>outdated_tech.
     bind_e (if py_truthy outdated_tech then
               bind_e (py_join_comma outdated_tech) (\<lambda>names.
                 Inr ([PStr (''outdated technologies in use: '' @ names)], ''medium''))
             else Inr ([], ''low'')) (\<lambda>(risks, risk_level).
     bind_e (py_get tech_analysis ''dependencies'' (PList [])) (\<lambda>dependencies.
     bind_e (py_len dependencies) (\<lambda>dependency_count.
     let (risks, risk_level) =
           (if dependency_count > 50 then (risks @ [PStr ''too many dependencies''], ''medium'')
            else (risks, risk_level)) in
     bind_e (py_contains ''security_issues'' features) (\<lambda>has_security.
     bind_e (if has_security then
               bind_e (py_getitem features ''security_issues'') (\<lambda>v.
               bind_e (as_num v) (\<lambda>security_issues.
                 Inr (if security_issues > 0
                      then (risks @ [PStr ''security vulnerabilities present''], ''high'')
                      else (risks, risk_level))))
             else Inr (risks, risk_level)) (\<lambda>(risks, risk_level).
     bind_e (py_contains ''maintenance_score'' features) (\<lambda>has_maintenance.
     bind_e (if has_maintenance then
               bind_e (py_getitem features ''maintenance_score'') (\<lambda>v.
               bind_e (as_num v) (\<lambda>maintenance.
                 Inr (if maintenance < 0.3
                      then (risks @ [PStr ''hard to maintain''], ''medium'')
                      else (risks, risk_level))))
             else Inr (risks, risk_level)) (\<lambda>(risks, risk_level).
       Inr (PDict [(''level'', PStr risk_level),
                   (''factors'', PList risks),
                   (''outdated_technologies'', outdated_tech),
                   (''dependency_count'', PNum (real dependency_count))])))))))))"

definition assess_risks :: "pyval \<Rightarrow> pyval \<Rightarrow> pyval" where
  "assess_risks features tech_analysis =
     (case assess_risks_body features tech_analysis of
        Inl e \<Rightarrow> PDict [(''level'', PStr ''unknown''), (''factors'', PList [PStr ''assessment failed'']),
                        (''error'', PStr (str_of_error e))]
      | Inr r \<Rightarrow> r)"

definition calculate_complexity_score_body :: "pyval \<Rightarrow> pyval \<Rightarrow> error + real" where
  "calculate_complexity_score_body features tech_analysis =
     bind_e (py_get tech_analysis ''detected_tech'' (PList [])) (\<lambda>detected.
     bind_e (py_len detected) (\<lambda>tech_count.
     let score = 50.0 + min (real tech_count * 5) 25 in
     bind_e (py_contains ''project_size'' features) (\<lambda>has_size.
     bind_e (if has_size then
               bind_e (py_getitem features ''project_size'') (\<lambda>v.
               bind_e (as_num v) (\<lambda>size.
                 Inr (if size > 1000 then score + 15 else if size > 500 then score + 10
                      else if size > 100 then score + 5 else score)))
             else Inr score) (\<lambda>score.
     bind_e (add_kw features ''architecture_complexity'' 10 score) (\<lambda>score.
       Inr (clamp_score score))))))"

definition calculate_complexity_score :: "pyval \<Rightarrow> pyval \<Rightarrow> real" where
  "calculate_complexity_score features tech_analysis =
     (case calculate_complexity_score_body features tech_analysis of
        Inl e \<Rightarrow> 50.0 | Inr score \<Rightarrow> score)"

text \<open>The statement pattern \<^verbatim>\<open>if k in features: score += (features[k] - 0.5) * c\<close>.\<close>

definition add_centered :: "pyval \<Rightarrow> string \<Rightarrow> real \<Rightarrow> real \<Rightarrow> error + real" where
  "add_centered features k c score =
     bind_e (py_contains k features) (\<lambda>present.
       if present then
         bind_e (py_getitem features k) (\<lambda>v.
         bind_e (as_num v) (\<lambda>x. Inr (score + (x - 0.5) * c)))
       else Inr score)"

definition calculate_maturity_score_body :: "pyval \<Rightarrow> pyval \<Rightarrow> error + real" where
  "calculate_maturity_score_body features tech_analysis =
     bind_e (py_get tech_analysis ''tech_maturity'' (PNum 0.5)) (\<lambda>m.
     bind_e (as_num m) (\<lambda>tech_maturity.
     let score = 50.0 + (tech_maturity - 0.5) * 40 in
     bind_e (add_centered features ''documentation_score'' 20 score) (\<lambda>score.
     bind_e (add_centered features ''test_coverage'' 20 score) (\<lambda>score.
       Inr (clamp_score score)))))"

definition calculate_maturity_score :: "pyval \<Rightarrow> pyval \<Rightarrow> real" where
  "calculate_maturity_score features tech_analysis =
     (case calculate_maturity_score_body features tech_analysis of
        Inl e \<Rightarrow> 50.0 | Inr score \<Rightarrow> score)"

text \<open>The statement pattern \<^verbatim>\<open>if k in features and features[k] < bound\<close> (or \<^verbatim>\<open>>\<close>).\<close>

definition feature_test :: "pyval \<Rightarrow> string \<Rightarrow> (real \<Rightarrow> bool) \<Rightarrow> error + bool" where
  "feature_test features k test =
     bind_e (py_contains k features) (\<lambda>present.
       if present then
         bind_e (py_getitem features k) (\<lambda>v. bind_e (as_num v) (\<lambda>x. Inr (test x)))
       else Inr False)"

text \<open>\<^verbatim>\<open>generate_recommendations\<close> (texts in English; an outdated entry that is not a
  string is shown as a question mark).\<close>

definition generate_recommendations_body :: "pyval \<Rightarrow> pyval \<Rightarrow> pyval \<Rightarrow> error + string list" where
  "generate_recommendations_body features tech_analysis category_result =
     bind_e (py_get category_result ''name'' (PStr [])) (\<lambda>category.
     let recommendations =
           (if py_eq_str category ''web_development'' then
              [''consider a modern frontend framework such as React or Vue.js'',
               ''use responsive design to support mobile devices'']
            else if py_eq_str category ''machine_learning'' then
              [''consider PyTorch or TensorFlow for model development'',
               ''add model evaluation and monitoring'']
            else []) in
     bind_e (py_get tech_analysis ''outdated_technologies'' (PList [])) (\<lambda>outdated_tech.
     bind_e (py_iter outdated_tech) (\<lambda>techs.
     let recommendations =
           recommendations
           @ map (\<lambda>tech. ''consider upgrading or replacing the outdated technology: ''
                          @ (case tech of PStr s \<Rightarrow> s | _ \<Rightarrow> ''?'')) techs in
     bind_e (feature_test features ''documentation_score'' (\<lambda>x. x < 0.5)) (\<lambda>low_doc.
     let recommendations =
           recommendations @ (if low_doc then [''improve the documentation''] else []) in
     bind_e (feature_test features ''test_coverage'' (\<lambda>x. x < 0.3)) (\<lambda>low_cov.
     let recommendations =
           recommendations @ (if low_cov then [''increase the test coverage''] else []) in
     bind_e (feature_test features ''security_issues'' (\<lambda>x. x > 0)) (\<lambda>insecure.
     let recommendations =
           recommendations @ (if insecure then [''fix the security vulnerabilities at once''] else []);
         generic_recommendations =
           [''set up continuous integration and deployment'', ''add performance monitoring and logging'',
            ''review and refactor the code regularly'', ''consider containerised deployment''];
         recommendations =
           (if length recommendations < 3 then
              recommendations @ take (3 - length recommendations) generic_recommendations
            else recommendations)
     in Inr (take 10 recommendations)))))))"

definition generate_recommendations :: "pyval \<Rightarrow> pyval \<Rightarrow> pyval \<Rightarrow> string list" where
  "generate_recommendations features tech_analysis category_result =
     (case generate_recommendations_body features tech_analysis category_result of
        Inl e \<Rightarrow> [''analysis in progress, see the detailed recommendations later'']
      | Inr r \<Rightarrow> r)"

text \<open>
  The components \<^verbatim>\<open>analyze_project\<close> works with, as loaded by \<^verbatim>\<open>load_models\<close>: the
  lexicon, and the parts that come from scikit-learn and NLTK as parameters (the
  similarity of technology vectors, the topic model, the classifier, the text analysis).
\<close>

record analysis_env =
  env_lexicon :: lexicon
  env_similarity :: "(string list \<Rightarrow> error + real) option"
  env_lda :: "(string \<Rightarrow> error + real list) option"
  env_classifier :: "error + (string \<Rightarrow> error + pyval)"
  env_nlp :: "string \<Rightarrow> error + pyval"

text \<open>The bundle put together in the body of \<^verbatim>\<open>analyze_project\<close> from the results of
  the four components.\<close>

definition analysis_bundle :: "pyval \<Rightarrow> pyval \<Rightarrow> pyval \<Rightarrow> pyval \<Rightarrow> pyval" where
  "analysis_bundle category_result tech_analysis features nlp_analysis =
     PDict [(''category'', category_result),
            (''tech_stack_analysis'', tech_analysis),
            (''features'', features),
            (''nlp_analysis'', nlp_analysis),
            (''complexity_score'', PNum (calculate_complexity_score features tech_analysis)),
            (''maturity_score'', PNum (calculate_maturity_score features tech_analysis)),
            (''risk_assessment'', assess_risks features tech_analysis),
            (''recommendations'',
               PList (map PStr (generate_recommendations features tech_analysis category_result))),
            (''model_versions'',
               PDict [(''classifier'', PStr ''1.0.0''), (''tech_analyzer'', PStr ''1.0.0''),
                      (''feature_extractor'', PStr ''1.0.0''), (''nlp_processor'', PStr ''1.0.0'')])]"

text \<open>
  \<^verbatim>\<open>analyze_project\<close>.  \<open>loaded\<close> is the outcome of making the models available: \<open>Inl e\<close>
  when \<^verbatim>\<open>load_models\<close> raises, which the handler answers with the fallback bundle.
\<close>

definition analyze_project :: "error + analysis_env \<Rightarrow> project \<Rightarrow> pyval" where
  "analyze_project loaded project_data =
     (case loaded of
        Inl e \<Rightarrow> analyze_project_fallback e
      | Inr env \<Rightarrow>
          let features = extract_features (env_lda env) project_data;
              category_result = predict (env_classifier env) project_data;
              tech_analysis = analyze_tech_stack (env_lexicon env) (env_similarity env) project_data;
              nlp_analysis =
                (case p_description project_data of
                   None \<Rightarrow> PDict []
                 | Some d \<Rightarrow> if d \<noteq> [] then analyze_text ''1.0.0'' (env_nlp env) (PStr d)
                             else PDict [])
          in analysis_bundle category_result tech_analysis features nlp_analysis)"

section \<open>Key sets and values used in the statements about the risk assessment\<close>

text \<open>The keys that the feature extractor can write: the fixed ones, and one per list-valued
  metadata entry.\<close>

definition known_feature_keys :: "string list" where
  "known_feature_keys =
     [''text_length'', ''word_count'', ''sentence_count'', ''vocabulary_size'', ''lexical_diversity'',
      ''avg_word_length'', ''readability_score'',
      ''topic_0_weight'', ''topic_1_weight'', ''topic_2_weight'', ''topic_3_weight'', ''topic_4_weight'',
      ''main_topic'', ''topic_entropy'',
      ''tech_count'', ''tech_diversity'', ''tech_category_count'', ''popular_tech_ratio'',
      ''metadata_field_count'', ''metadata_text_length'', ''metadata_numeric_count'',
      ''metadata_numeric_mean'', ''metadata_numeric_std'',
      ''quality_score_code'', ''quality_score_architecture'', ''quality_score_documentation'',
      ''quality_score_testing'', ''quality_score_security'', ''overall_quality_score'',
      ''innovation_score_novelty'', ''innovation_score_complexity'', ''innovation_score_automation'',
      ''overall_innovation_score'',
      ''business_score_market'', ''business_score_user'', ''business_score_scale'',
      ''overall_business_score'',
      ''tech_complexity'', ''text_complexity'', ''metadata_complexity'', ''overall_complexity'',
      ''project_size'',
      ''maturity_score'', ''risk_score'', ''feasibility_score'', ''maintainability_score'',
      ''innovation_potential'']"

definition feature_key :: "string \<Rightarrow> bool" where
  "feature_key k = (k \<in> set known_feature_keys \<or> (\<exists>x. k = ''metadata_list_'' @ x @ ''_count''))"

text \<open>The risk assessment with no risk factor.\<close>

definition low_risk :: pyval where
  "low_risk = PDict [(''level'', PStr ''low''), (''factors'', PList []),
                     (''outdated_technologies'', PList []), (''dependency_count'', PNum 0)]"

(*PROPERTIES*)
section \<open>Properties of the scoring engine\<close>














lemma py_round2_50: "py_round2 50 = 50"
  by (simp add: py_round2_def round_half_even_def)



























lemma py_round2_4875: "py_round2 (4875/100) = 4875/100"
  by (simp add: py_round2_def round_half_even_def)














section \<open>Properties of the technology detector\<close>

lemma update_values: "snd ` set (AList.update k v al) \<subseteq> insert v (snd ` set al)"
  by (induction al) auto

lemma fold_update_values:
  "snd ` set (fold (\<lambda>a al. AList.update (f a) v al) xs al) \<subseteq> insert v (snd ` set al)"
proof (induction xs arbitrary: al)
  case Nil
  then show ?case by auto
next
  case (Cons x xs)
  have "snd ` set (fold (\<lambda>a al. AList.update (f a) v al) xs (AList.update (f x) v al))
          \<subseteq> insert v (snd ` set (AList.update (f x) v al))"
    by (rule Cons.IH)
  also have "\<dots> \<subseteq> insert v (snd ` set al)"
    using update_values[of "f x" v al] by auto
  finally show ?case by simp
qed

lemma alias_step_values:
  "snd ` set (alias_step entry al) \<subseteq> insert (fst entry) (snd ` set al)"
proof -
  let ?a1 = "AList.update (fst entry) (fst entry) al"
  let ?a2 = "fold (\<lambda>alias al. AList.update (lower alias) (fst entry) al) (ti_aliases (snd entry)) ?a1"
  have 1: "snd ` set ?a1 \<subseteq> insert (fst entry) (snd ` set al)"
    by (rule update_values)
  have 2: "snd ` set ?a2 \<subseteq> insert (fst entry) (snd ` set ?a1)"
    by (rule fold_update_values)
  have 3: "snd ` set (AList.update k (fst entry) ?a2) \<subseteq> insert (fst entry) (snd ` set ?a2)" for k
    by (rule update_values)
  from 1 2 have 4: "snd ` set ?a2 \<subseteq> insert (fst entry) (snd ` set al)" by blast
  from 3 4 have 5: "snd ` set (AList.update k (fst entry) ?a2) \<subseteq> insert (fst entry) (snd ` set al)" for k
    by blast
  show ?thesis
    unfolding alias_step_def Let_def using 4 5 by (simp only: split: if_splits) simp
qed

lemma fold_alias_step_values:
  "snd ` set (fold alias_step ds al) \<subseteq> fst ` set ds \<union> snd ` set al"
proof (induction ds arbitrary: al)
  case Nil
  then show ?case by simp
next
  case (Cons d ds)
  have "snd ` set (fold alias_step ds (alias_step d al)) \<subseteq> fst ` set ds \<union> snd ` set (alias_step d al)"
    by (rule Cons.IH)
  with alias_step_values[of d al] show ?case by (simp add: subset_iff) blast
qed

lemma build_alias_mapping_values:
  "map_of (build_alias_mapping defs) k = Some v \<Longrightarrow> v \<in> fst ` set defs"
proof -
  assume "map_of (build_alias_mapping defs) k = Some v"
  then have "(k, v) \<in> set (build_alias_mapping defs)" by (rule map_of_SomeD)
  then have "v \<in> snd ` set (build_alias_mapping defs)" by force
  with fold_alias_step_values[of defs "[]"] show ?thesis
    by (auto simp: build_alias_mapping_def)
qed

lemma normalize_in_defs:
  assumes "normalize_tech_name (mk_lexicon defs) t = Some n"
  shows "n \<in> fst ` set defs"
  using assms
  by (auto simp: normalize_tech_name_def mk_lexicon_def Let_def find_Some_iff
      dest: build_alias_mapping_values split: if_splits option.splits)

lemma add_if_subset:
  "set (add_if (normalize_tech_name (mk_lexicon defs) t)) \<subseteq> fst ` set defs"
proof (cases "normalize_tech_name (mk_lexicon defs) t")
  case None
  then show ?thesis by (simp add: add_if_def)
next
  case (Some n)
  from normalize_in_defs[OF Some] Some show ?thesis by (auto simp: add_if_def)
qed

lemma scan_words_subset: "set (scan_words (mk_lexicon defs) ws) \<subseteq> fst ` set defs"
proof (induction ws)
  case Nil
  then show ?case by simp
next
  case (Cons w ws)
  show ?case
  proof (cases ws)
    case Nil
    then show ?thesis using add_if_subset[of defs w] by simp
  next
    case (Cons w2 rest)
    then show ?thesis
      using add_if_subset[of defs w] add_if_subset[of defs "w @ '' '' @ w2"] Cons.IH
      by simp
  qed
qed

lemma extract_from_text_subset: "set (extract_from_text (mk_lexicon defs) text) \<subseteq> fst ` set defs"
  using scan_words_subset by (simp add: extract_from_text_def)

lemma detected_additions_subset: "set (detected_additions (mk_lexicon defs) p) \<subseteq> fst ` set defs"
proof -
  have a: "x \<in> set (add_if (normalize_tech_name (mk_lexicon defs) t)) \<Longrightarrow> x \<in> fst ` set defs" for x t
    using add_if_subset[of defs t] by blast
  have b: "x \<in> set (extract_from_text (mk_lexicon defs) s) \<Longrightarrow> x \<in> fst ` set defs" for x s
    using extract_from_text_subset[of defs s] by blast
  show ?thesis
    unfolding detected_additions_def
    by (auto split: option.splits if_splits dest: a b)
qed

lemma sort_remdups_unique:
  fixes xs ys :: "string list"
  assumes "set xs = set ys"
  shows "sort (remdups xs) = sort (remdups ys)"
  by (rule sorted_distinct_set_unique) (simp_all add: assms)

lemma load_is_mk_lexicon: "\<exists>defs. load_tech_definitions ts = mk_lexicon defs"
  by (cases ts) (auto simp: load_tech_definitions_def create_basic_definitions_def)

text \<open>
  Claim C5.  For every lexicon the loader can build and every project record, the
  detected list has no duplicates, is sorted, and holds only keys of the lexicon.  It is
  the same list for every order in which the set of detected names is enumerated, so
  two calls on the same record and lexicon return the same elements in the same order.
\<close>

theorem detect_technologies_canonical:
  "distinct (detect_technologies (load_tech_definitions ts) p)
   \<and> sorted (detect_technologies (load_tech_definitions ts) p)
   \<and> set (detect_technologies (load_tech_definitions ts) p)
         \<subseteq> set (map fst (tech_definitions (load_tech_definitions ts)))
   \<and> (\<forall>ds. set ds = set (detected_additions (load_tech_definitions ts) p)
          \<longrightarrow> sort (remdups ds) = detect_technologies (load_tech_definitions ts) p)"
proof -
  obtain defs where lx: "load_tech_definitions ts = mk_lexicon defs"
    using load_is_mk_lexicon by blast
  have "set (detect_technologies (mk_lexicon defs) p) \<subseteq> fst ` set defs"
    using detected_additions_subset[of defs p] by (simp add: detect_technologies_def)
  moreover have "tech_definitions (mk_lexicon defs) = defs"
    by (simp add: mk_lexicon_def)
  ultimately show ?thesis
    unfolding lx by (auto simp: detect_technologies_def intro: sort_remdups_unique)
qed

lemma scenario_detected:
  "detect_technologies (load_tech_definitions None)
     \<lparr>p_name = ''Zzz'', p_description = Some ''Uses K8s!'',
      p_tech_stack = [''python'', ''fastapi'', ''PostgreSQL'', ''docker'', ''py''],
      p_metadata = Some [(''k'', PStr ''Redis 7''), (''n'', PNum 3)]\<rparr>
   = [''docker'', ''fastapi'', ''kubernetes'', ''postgresql'', ''python'', ''redis'']"
  by code_simp

text \<open>C5 on the basic lexicon, with the set of detected names enumerated in reverse.\<close>

theorem detect_technologies_canonical_witness:
  "distinct [''docker'', ''fastapi'', ''kubernetes'', ''postgresql'', ''python'', ''redis'']
   \<and> sorted [''docker'', ''fastapi'', ''kubernetes'', ''postgresql'', ''python'', ''redis'']
   \<and> set [''docker'', ''fastapi'', ''kubernetes'', ''postgresql'', ''python'', ''redis'']
         \<subseteq> set (map fst (tech_definitions (load_tech_definitions None)))
   \<and> sort (remdups (rev (detected_additions (load_tech_definitions None)
         \<lparr>p_name = ''Zzz'', p_description = Some ''Uses K8s!'',
      p_tech_stack = [''python'', ''fastapi'', ''PostgreSQL'', ''docker'', ''py''],
      p_metadata = Some [(''k'', PStr ''Redis 7''), (''n'', PNum 3)]\<rparr>)))
       = [''docker'', ''fastapi'', ''kubernetes'', ''postgresql'', ''python'', ''redis'']"
proof -
  let ?p = "\<lparr>p_name = ''Zzz'', p_description = Some ''Uses K8s!'',
      p_tech_stack = [''python'', ''fastapi'', ''PostgreSQL'', ''docker'', ''py''],
      p_metadata = Some [(''k'', PStr ''Redis 7''), (''n'', PNum 3)]\<rparr>"
  have h: "set (rev (detected_additions (load_tech_definitions None) ?p))
             = set (detected_additions (load_tech_definitions None) ?p)"
    by simp
  from detect_technologies_canonical[of None ?p] h show ?thesis
    unfolding scenario_detected by blast
qed

text \<open>
  Claim C6, as the code has it.  The empty token returns \<open>None\<close> at once, for every
  lexicon, before any stage is tried.  For a non-empty token the result is that of the
  first of the four stages that matches, in the order exact match, alias table, match
  after cleaning, substring containment (first name in lexicon order), and it is \<open>None\<close>
  exactly when all four fail.  On the basic lexicon \<open>js\<close>, \<open>py\<close>, \<open>k8s\<close> and
  \<open>python3.9\<close> resolve to \<open>javascript\<close>, \<open>python\<close>, \<open>kubernetes\<close> and \<open>python\<close>.
\<close>

theorem normalize_tech_name_stages:
  "normalize_tech_name lx [] = None
   \<and> (token \<noteq> [] \<longrightarrow>
      normalize_tech_name lx token =
        first_match [exact_match lx token, alias_match lx token,
                     cleaned_match lx token, substring_match lx token])
   \<and> (token \<noteq> [] \<longrightarrow>
        (normalize_tech_name lx token = None \<longleftrightarrow>
           exact_match lx token = None \<and> alias_match lx token = None
           \<and> cleaned_match lx token = None \<and> substring_match lx token = None))
   \<and> normalize_tech_name create_basic_definitions ''js'' = Some ''javascript''
   \<and> normalize_tech_name create_basic_definitions ''py'' = Some ''python''
   \<and> normalize_tech_name create_basic_definitions ''k8s'' = Some ''kubernetes''
   \<and> normalize_tech_name create_basic_definitions ''python3.9'' = Some ''python''"
proof -
  have single: "first_match [a] = a" for a :: "string option"
    by (cases a) simp_all
  have stages: "normalize_tech_name lx token =
        first_match [exact_match lx token, alias_match lx token,
                     cleaned_match lx token, substring_match lx token]" if "token \<noteq> []"
    using that
    by (simp add: normalize_tech_name_def exact_match_def alias_match_def cleaned_match_def
        substring_match_def Let_def single split: option.splits)
  have none: "first_match [a, b, c, d] = None \<longleftrightarrow> a = None \<and> b = None \<and> c = None \<and> d = None"
    for a b c d :: "string option"
    by (cases a; cases b; cases c; cases d) simp_all
  have js: "normalize_tech_name create_basic_definitions ''js'' = Some ''javascript''"
    by code_simp
  have py: "normalize_tech_name create_basic_definitions ''py'' = Some ''python''"
    by code_simp
  have k8s: "normalize_tech_name create_basic_definitions ''k8s'' = Some ''kubernetes''"
    by code_simp
  have p39: "normalize_tech_name create_basic_definitions ''python3.9'' = Some ''python''"
    by code_simp
  have empty: "normalize_tech_name lx [] = None"
    by (simp add: normalize_tech_name_def)
  show ?thesis
    using empty stages none js py k8s p39 by simp
qed

text \<open>C6 at a token of the third stage.\<close>

theorem normalize_tech_name_stages_witness:
  "''Python3.9 '' \<noteq> []
   \<and> exact_match create_basic_definitions ''Python3.9 '' = None
   \<and> alias_match create_basic_definitions ''Python3.9 '' = None
   \<and> cleaned_match create_basic_definitions ''Python3.9 '' = Some ''python''
   \<and> normalize_tech_name create_basic_definitions ''Python3.9 '' = Some ''python''"
proof -
  have e: "exact_match create_basic_definitions ''Python3.9 '' = None" by code_simp
  have a: "alias_match create_basic_definitions ''Python3.9 '' = None" by code_simp
  have c: "cleaned_match create_basic_definitions ''Python3.9 '' = Some ''python''" by code_simp
  have n: "''Python3.9 '' \<noteq> []" by simp
  from normalize_tech_name_stages[of create_basic_definitions "''Python3.9 ''"] n
  have "normalize_tech_name create_basic_definitions ''Python3.9 '' =
        first_match [exact_match create_basic_definitions ''Python3.9 '',
                     alias_match create_basic_definitions ''Python3.9 '',
                     cleaned_match create_basic_definitions ''Python3.9 '',
                     substring_match create_basic_definitions ''Python3.9 '']"
    by blast
  then show ?thesis by (simp add: e a c)
qed

text \<open>
  C6 as stated fails at the empty token: the guard returns \<open>None\<close> although the
  substring stage matches (the empty string is contained in every name).
\<close>

theorem empty_token_counterexample:
  "normalize_tech_name create_basic_definitions [] = None
   \<and> substring_match create_basic_definitions [] = Some ''python''"
  by code_simp

section \<open>Properties of the text analyser and the classifier\<close>

text \<open>
  Claim C9, as the code has it.  When the tokeniser returns at most 3 sentences the
  summary is all of them joined by blanks; when it returns more, the summary is the
  first two sentences followed by the last one (with the limit \<open>m = 3\<close>: the first
  \<open>m div 2 + 1\<close> and the last \<open>m div 2\<close>).
\<close>

theorem summary_first_two_and_last:
  "sent_tokenize txt = Inr sentences \<longrightarrow>
     (length sentences \<le> 3 \<longrightarrow> generate_summary sent_tokenize txt 3 = join_sp sentences)
     \<and> (length sentences > 3 \<longrightarrow>
          generate_summary sent_tokenize txt 3
            = join_sp (take 2 sentences @ drop (length sentences - 1) sentences))"
proof (intro impI conjI)
  assume t: "sent_tokenize txt = Inr sentences"
  show "generate_summary sent_tokenize txt 3 = join_sp sentences" if "length sentences \<le> 3"
    using that t by (cases sentences) (simp_all add: generate_summary_def)
  show "generate_summary sent_tokenize txt 3
            = join_sp (take 2 sentences @ drop (length sentences - 1) sentences)"
    if "length sentences > 3"
  proof -
    have ne: "sentences \<noteq> []" using that by auto
    have d: "nat (int (length sentences) - 1) = length sentences - 1" by simp
    show ?thesis
      using that t ne by (simp add: generate_summary_def slice_to_def slice_from_def Let_def d)
  qed
qed

text \<open>C9 on five sentences and on three.\<close>

theorem summary_first_two_and_last_witness:
  "generate_summary (\<lambda>t. Inr [''A.'', ''B.'', ''C.'', ''D.'', ''E.'']) ''A. B. C. D. E.'' 3 = ''A. B. E.''
   \<and> generate_summary (\<lambda>t. Inr [''A.'', ''B.'', ''C.'']) ''A. B. C.'' 3 = ''A. B. C.''"
  using summary_first_two_and_last[of "\<lambda>t. Inr [''A.'', ''B.'', ''C.'', ''D.'', ''E.'']" "''A. B. C. D. E.''"
          "[''A.'', ''B.'', ''C.'', ''D.'', ''E.'']"]
        summary_first_two_and_last[of "\<lambda>t. Inr [''A.'', ''B.'', ''C.'']" "''A. B. C.''"
          "[''A.'', ''B.'', ''C.'']"]
  by simp

text \<open>
  C9 as stated fails on five sentences: the first \<open>\<lceil>3/2\<rceil> + 1 = 3\<close> sentences followed
  by the last \<open>\<lfloor>3/2\<rfloor> = 1\<close> would be four sentences, the code returns three.
\<close>

theorem summary_counterexample:
  "generate_summary (\<lambda>t. Inr [''A.'', ''B.'', ''C.'', ''D.'', ''E.'']) ''A. B. C. D. E.'' 3 = ''A. B. E.''
   \<and> join_sp (take (nat \<lceil>3 / 2 :: real\<rceil> + 1) [''A.'', ''B.'', ''C.'', ''D.'', ''E.'']
              @ drop (5 - nat \<lfloor>3 / 2 :: real\<rfloor>) [''A.'', ''B.'', ''C.'', ''D.'', ''E.''])
       = ''A. B. C. E.''"
  by (simp add: generate_summary_def slice_to_def slice_from_def)



section \<open>Properties of the risk assessment\<close>

lemma keys_dict_update: "fst ` set (dict_update f d) = fst ` set f \<union> fst ` set d"
proof (induction d arbitrary: f)
  case Nil
  then show ?case by (simp add: dict_update_def)
next
  case (Cons a d)
  obtain k v where a: "a = (k, v)" by (cases a)
  have step: "dict_update f (a # d) = dict_update (AList.update k v f) d"
    by (simp add: dict_update_def a)
  have "fst ` set (dict_update (AList.update k v f) d)
          = fst ` set (AList.update k v f) \<union> fst ` set d"
    by (rule Cons.IH)
  then show ?case
    unfolding step by (simp add: dom_update a)
qed

lemma keys_ok_update:
  assumes "fst ` set f \<subseteq> Collect feature_key" "fst ` set d \<subseteq> Collect feature_key"
  shows "fst ` set (dict_update f d) \<subseteq> Collect feature_key"
  using assms by (simp add: keys_dict_update)

lemma known_key: "k \<in> set known_feature_keys \<Longrightarrow> feature_key k"
  by (simp add: feature_key_def)

lemma keys_topic: "fst ` set (topic_features dstr) \<subseteq> Collect feature_key"
proof -
  have z: "fst ` set (zip topic_weight_keys (take 5 dstr)) \<subseteq> set topic_weight_keys"
    by (auto dest: set_zip_leftD)
  have t: "set topic_weight_keys \<subseteq> Collect feature_key"
    by (simp add: topic_weight_keys_def known_key known_feature_keys_def)
  have m: "feature_key ''main_topic''" "feature_key ''topic_entropy''"
    by (simp_all add: known_key known_feature_keys_def)
  show ?thesis
    using z t m by (auto simp: topic_features_def image_Un)
qed

lemma keys_stats: "fst ` set (text_statistics t) \<subseteq> Collect feature_key"
proof -
  have "map fst (text_statistics t) =
     [''text_length'', ''word_count'', ''sentence_count'', ''vocabulary_size'',
      ''lexical_diversity'', ''avg_word_length'', ''readability_score'']"
    unfolding text_statistics_def Let_def by (simp only: list.map fst_conv)
  then have "fst ` set (text_statistics t) =
     set [''text_length'', ''word_count'', ''sentence_count'', ''vocabulary_size'',
      ''lexical_diversity'', ''avg_word_length'', ''readability_score'']"
    by (metis set_map)
  then show ?thesis
    by (simp add: known_key known_feature_keys_def)
qed

lemma keys_text: "fst ` set (extract_text_features lda p) \<subseteq> Collect feature_key"
  unfolding extract_text_features_def Let_def
  using keys_stats keys_topic
  by (simp add: keys_dict_update split: option.splits sum.splits)

lemma keys_tech: "fst ` set (extract_tech_features p) \<subseteq> Collect feature_key"
  by (simp add: extract_tech_features_def Let_def known_key known_feature_keys_def)

lemma keys_list_counts: "fst ` set (list_counts md) \<subseteq> Collect feature_key"
proof (induction md)
  case Nil
  then show ?case by (simp add: list_counts_def)
next
  case (Cons a md)
  obtain k v where a: "a = (k, v)" by (cases a)
  have "feature_key (''metadata_list_'' @ k @ ''_count'')"
    unfolding feature_key_def by blast
  with Cons show ?case
    by (cases v) (simp_all add: list_counts_def a)
qed

lemma keys_metadata: "fst ` set (extract_metadata_features p) \<subseteq> Collect feature_key"
proof -
  have b1: "fst ` set [(''metadata_field_count'', a)] \<subseteq> Collect feature_key" for a :: real
    by (simp add: known_key known_feature_keys_def)
  have b2: "fst ` set [(''metadata_text_length'', a), (''metadata_numeric_count'', b)]
      \<subseteq> Collect feature_key" for a b :: real
    by (simp add: known_key known_feature_keys_def)
  have b3: "fst ` set [(''metadata_numeric_mean'', a), (''metadata_numeric_std'', b)]
      \<subseteq> Collect feature_key" for a b :: real
    by (simp add: known_key known_feature_keys_def)
  show ?thesis
  proof (cases "p_metadata p")
    case None
    then show ?thesis by (simp add: extract_metadata_features_def)
  next
    case (Some md)
    show ?thesis
      unfolding extract_metadata_features_def Let_def Some option.case
      by (simp only: split: if_splits)
         (intro conjI impI keys_ok_update b1 b2 b3 keys_list_counts)
  qed
qed

lemma keys_keyword: "fst ` set (extract_keyword_features p) \<subseteq> Collect feature_key"
  by (simp add: extract_keyword_features_def Let_def known_key known_feature_keys_def)

lemma keys_complexity: "fst ` set (extract_complexity_features f) \<subseteq> Collect feature_key"
  by (simp add: extract_complexity_features_def Let_def known_key known_feature_keys_def)

lemma keys_derived: "fst ` set (calculate_derived_features f) \<subseteq> Collect feature_key"
  by (simp add: calculate_derived_features_def Let_def known_key known_feature_keys_def)

lemma keys_feature_dict: "fst ` set (feature_dict lda p) \<subseteq> Collect feature_key"
  unfolding feature_dict_def Let_def
  by (intro keys_ok_update keys_text keys_tech keys_metadata keys_keyword keys_complexity
        keys_derived) simp

lemma not_feature_keys: "\<not> feature_key ''security_issues''" "\<not> feature_key ''maintenance_score''"
  by (auto simp: feature_key_def known_feature_keys_def)

lemma contains_num_dict: "py_contains k (num_dict d) = Inr (k \<in> fst ` set d)"
  by (force simp: py_contains_def num_dict_def)

lemma features_lack_risk_keys:
  "py_contains ''security_issues'' (extract_features lda p) = Inr False"
  "py_contains ''maintenance_score'' (extract_features lda p) = Inr False"
  using keys_feature_dict[of lda p] not_feature_keys
  by (auto simp: extract_features_def contains_num_dict)

lemma tech_analysis_gets:
  "py_get (analyze_tech_stack lx sim p) ''outdated_technologies'' d = Inr d"
  "py_get (analyze_tech_stack lx sim p) ''dependencies'' d = Inr d"
  "py_contains ''outdated_technologies'' (analyze_tech_stack lx sim p) = Inr False"
  "py_contains ''dependencies'' (analyze_tech_stack lx sim p) = Inr False"
  by (simp_all add: analyze_tech_stack_def Let_def py_get_def py_contains_def)

lemma tech_analysis_analysis_get:
  "py_get3 (PDict [(''tech_stack_analysis'', analyze_tech_stack lx sim p)])
     ''tech_stack_analysis'' ''analysis'' ''outdated_technologies'' d = Inr d"
  by (simp add: py_get3_def py_get_def bind_e_def analyze_tech_stack_def Let_def
      analyze_tech_features_def)

lemma assess_risks_low:
  assumes "py_get t ''outdated_technologies'' (PList []) = Inr (PList [])"
    and "py_get t ''dependencies'' (PList []) = Inr (PList [])"
    and "py_contains ''security_issues'' f = Inr False"
    and "py_contains ''maintenance_score'' f = Inr False"
  shows "assess_risks f t = low_risk"
  by (simp add: assess_risks_def assess_risks_body_def assms bind_e_def py_truthy_def py_len_def
      low_risk_def)

text \<open>
  Claim C10.  For every project and every analysis environment, the feature dictionary has
  neither the key \<open>security_issues\<close> nor \<open>maintenance_score\<close>, and the technology
  analysis has neither \<open>outdated_technologies\<close> nor \<open>dependencies\<close>.  The risk assessment
  of the analysis bundle is therefore the one with level \<open>low\<close>, no factors, no outdated
  technologies and dependency count 0; the same holds when the feature extraction and the
  technology analysis return their failure values.
\<close>

theorem risk_level_always_low:
  "py_contains ''security_issues'' (extract_features (env_lda env) p) = Inr False
   \<and> py_contains ''maintenance_score'' (extract_features (env_lda env) p) = Inr False
   \<and> py_contains ''outdated_technologies''
         (analyze_tech_stack (env_lexicon env) (env_similarity env) p) = Inr False
   \<and> py_contains ''dependencies''
         (analyze_tech_stack (env_lexicon env) (env_similarity env) p) = Inr False
   \<and> py_get (analyze_project (Inr env) p) ''risk_assessment'' PNone = Inr low_risk
   \<and> py_get2 (analyze_project (Inr env) p) ''risk_assessment'' ''level'' (PStr ''medium'')
         = Inr (PStr ''low'')
   \<and> assess_risks (extract_features_failed e) (analyze_tech_stack_failed e') = low_risk"
proof -
  have r: "assess_risks (extract_features (env_lda env) p)
             (analyze_tech_stack (env_lexicon env) (env_similarity env) p) = low_risk"
    by (rule assess_risks_low) (simp_all add: tech_analysis_gets features_lack_risk_keys)
  have b: "py_get (analyze_project (Inr env) p) ''risk_assessment'' PNone = Inr low_risk"
    by (simp add: analyze_project_def Let_def analysis_bundle_def py_get_def r)
  have l: "py_get2 (analyze_project (Inr env) p) ''risk_assessment'' ''level'' (PStr ''medium'')
         = Inr (PStr ''low'')"
    by (simp add: analyze_project_def Let_def analysis_bundle_def py_get2_def py_get_def bind_e_def r
        low_risk_def)
  have f: "assess_risks (extract_features_failed e) (analyze_tech_stack_failed e') = low_risk"
    by (rule assess_risks_low)
       (simp_all add: extract_features_failed_def analyze_tech_stack_failed_def py_get_def
          py_contains_def)
  show ?thesis
    using b l f by (simp add: tech_analysis_gets features_lack_risk_keys)
qed

end
